theory Spec2Isabelle
  imports Main
begin

section \<open>The interpreter loop of \<^verbatim>\<open>src/app.py\<close>\<close>

text \<open>
  \<^verbatim>\<open>run_sign_language_interpreter\<close> keeps four local variables across the iterations of
  its \<^verbatim>\<open>while True\<close> loop: the deque \<^verbatim>\<open>prediction_history\<close> (\<^verbatim>\<open>maxlen=5\<close>), the last
  confirmed label \<^verbatim>\<open>last_prediction\<close> (initially \<^verbatim>\<open>None\<close>), the text \<^verbatim>\<open>sentence\<close> and the
  text \<^verbatim>\<open>error_message\<close>. Labels are the strings returned by the classifier.
\<close>

type_synonym label = string

record state =
  prediction_history :: "label list"
  last_prediction :: "label option"
  sentence :: string
  error_message :: string

definition MAX_SENTENCE_LENGTH :: nat where
  "MAX_SENTENCE_LENGTH = 30"

definition initial_state :: state where
  "initial_state =
     \<lparr>prediction_history = [], last_prediction = None, sentence = [], error_message = []\<rparr>"

text \<open>
  \<^verbatim>\<open>deque(maxlen=5).append(x)\<close> puts \<^verbatim>\<open>x\<close> at the right end and, when the deque then holds
  more than five entries, drops the leftmost one.
\<close>

definition deque_append :: "label list \<Rightarrow> label \<Rightarrow> label list" where
  "deque_append h x = (let h' = h @ [x] in if 5 < length h' then tl h' else h')"

subsection \<open>The per-frame path (lines 83 to 124)\<close>

text \<open>
  What the detector and the classifier deliver for one frame:
  \<^item> \<open>NoDetection\<close>: \<^verbatim>\<open>results.multi_hand_landmarks\<close> is empty, the \<^verbatim>\<open>if\<close> of line 83 is
    not entered;
  \<^item> \<open>FeatureMismatch\<close>: landmarks were found and \<^verbatim>\<open>len(data_aux)\<close> differs from
    \<^verbatim>\<open>model.n_features_in_\<close> (the \<^verbatim>\<open>else\<close> of line 121);
  \<^item> \<open>Detected l\<close>: the sizes agree and \<^verbatim>\<open>model.predict\<close> returns the label \<open>l\<close>.
\<close>

datatype frame_result = NoDetection | FeatureMismatch | Detected label

text \<open>
  The second component of the result is the confirmation event of the frame: \<open>Some l\<close> when
  \<^verbatim>\<open>play_sound_for_prediction(l)\<close> is called (line 110), \<open>None\<close> otherwise. Drawing on the
  frame and logging are not modelled.
\<close>

fun process_frame :: "frame_result \<Rightarrow> state \<Rightarrow> state \<times> label option" where
  "process_frame NoDetection s = (s, None)"
| "process_frame FeatureMismatch s =
     (s\<lparr>error_message := ''Error: Feature count mismatch or Multiple hands detected'',
        prediction_history := []\<rparr>, None)"
| "process_frame (Detected l) s =
     (let h = deque_append (prediction_history s) l in
      if length h = 5 \<and> list_all (\<lambda>p. p = l) h \<and> Some l \<noteq> last_prediction s
      then (s\<lparr>error_message := [], prediction_history := [], last_prediction := Some l\<rparr>,
            Some l)
      else (s\<lparr>error_message := [], prediction_history := h\<rparr>, None))"

text \<open>A stream of frame results, processed one after the other with no key pressed.\<close>

fun process_frames :: "frame_result list \<Rightarrow> state \<Rightarrow> state \<times> label option list" where
  "process_frames [] s = (s, [])"
| "process_frames (f # fs) s =
     (case process_frame f s of (s1, ev) \<Rightarrow>
        (case process_frames fs s1 of (s2, evs) \<Rightarrow> (s2, ev # evs)))"

subsection \<open>The key commands (lines 127 to 147)\<close>

text \<open>
  \<^verbatim>\<open>key = cv2.waitKey(1) & 0xFF\<close> is a number below 256, compared with \<^verbatim>\<open>ord\<close> of a
  character. With no key pressed \<^verbatim>\<open>waitKey\<close> returns -1 and \<open>key\<close> is 255.
\<close>

definition ord :: "char \<Rightarrow> nat" where
  "ord c = of_char c"

definition NO_KEY :: nat where
  "NO_KEY = 255"

datatype outcome = Break state | Continue state

text \<open>
  \<^verbatim>\<open>if last_prediction:\<close> is Python's truth test: \<^verbatim>\<open>None\<close> and the empty string fail it.
  \<^verbatim>\<open>sentence[:-1]\<close> is the sentence without its last character, and the empty sentence when
  it is empty. The pauses (\<^verbatim>\<open>cv2.waitKey(200)\<close>, \<^verbatim>\<open>time.sleep(1)\<close>) are not modelled.
\<close>

definition handle_key :: "nat \<Rightarrow> state \<Rightarrow> outcome" where
  "handle_key key s =
     (if key = ord CHR '' '' then
        (if length (sentence s) < MAX_SENTENCE_LENGTH then
           (case last_prediction s of
              None \<Rightarrow> Continue s
            | Some l \<Rightarrow>
                if l = [] then Continue s
                else Continue (s\<lparr>sentence := sentence s @ l, last_prediction := None,
                                 prediction_history := []\<rparr>))
         else Continue (s\<lparr>error_message := ''Error: Sentence length limit reached''\<rparr>))
      else if key = ord CHR ''s'' \<or> key = ord CHR ''S'' then
        (if length (sentence s) < MAX_SENTENCE_LENGTH
         then Continue (s\<lparr>sentence := sentence s @ '' ''\<rparr>)
         else Continue (s\<lparr>error_message := ''Error: Sentence length limit reached''\<rparr>))
      else if key = ord CHR ''b'' \<or> key = ord CHR ''B'' then
        Continue (s\<lparr>sentence := butlast (sentence s), error_message := []\<rparr>)
      else if key = ord CHR ''q'' \<or> key = ord CHR ''Q'' then Break s
      else Continue s)"

subsection \<open>One iteration and the loop (lines 72 to 163)\<close>

text \<open>
  What one iteration reads from outside: whether \<^verbatim>\<open>cap.read()\<close> succeeded, the frame
  result, the key, and whether the window is still visible at the end (line 161).
\<close>

record iteration_input =
  capture_ok :: bool
  frame :: frame_result
  key :: nat
  window_visible :: bool

definition loop_iteration :: "iteration_input \<Rightarrow> state \<Rightarrow> outcome \<times> label option" where
  "loop_iteration i s =
     (if \<not> capture_ok i then (Break s, None)
      else case process_frame (frame i) s of (s1, ev) \<Rightarrow>
        (case handle_key (key i) s1 of
           Break s2 \<Rightarrow> (Break s2, ev)
         | Continue s2 \<Rightarrow> (if window_visible i then Continue s2 else Break s2, ev)))"

text \<open>
  The loop over a finite list of iteration inputs: the state when the loop has left or the
  inputs are used up, and the confirmation event of every iteration that ran.
\<close>

fun run :: "iteration_input list \<Rightarrow> state \<Rightarrow> state \<times> label option list" where
  "run [] s = (s, [])"
| "run (i # is) s =
     (case loop_iteration i s of
        (Break s1, ev) \<Rightarrow> (s1, [ev])
      | (Continue s1, ev) \<Rightarrow> (case run is s1 of (s2, evs) \<Rightarrow> (s2, ev # evs)))"

text \<open>The labels confirmed in a list of events, in order.\<close>

fun confirmations :: "label option list \<Rightarrow> label list" where
  "confirmations [] = []"
| "confirmations (None # es) = confirmations es"
| "confirmations (Some l # es) = l # confirmations es"

subsection \<open>Auxiliary notions for stating properties\<close>

text \<open>Whether an iteration leaves the loop running, and the state it leaves behind.\<close>

fun continues :: "outcome \<Rightarrow> bool" where
  "continues (Continue s) = True"
| "continues (Break s) = False"

fun outcome_state :: "outcome \<Rightarrow> state" where
  "outcome_state (Continue s) = s"
| "outcome_state (Break s) = s"

text \<open>A frame result that carries a label other than \<open>L\<close>.\<close>

definition differing_label :: "label \<Rightarrow> frame_result \<Rightarrow> bool" where
  "differing_label L f = (case f of Detected l \<Rightarrow> l \<noteq> L | _ \<Rightarrow> False)"

text \<open>An iteration in which the frame is read, no key is pressed and the window stays open.\<close>

definition no_key_input :: "frame_result \<Rightarrow> iteration_input" where
  "no_key_input f = \<lparr>capture_ok = True, frame = f, key = NO_KEY, window_visible = True\<rparr>"

text \<open>An iteration in which the frame is read, the key \<open>k\<close> arrives and the window stays open.\<close>

definition key_input :: "frame_result \<Rightarrow> nat \<Rightarrow> iteration_input" where
  "key_input f k = \<lparr>capture_ok = True, frame = f, key = k, window_visible = True\<rparr>"

section \<open>Key codes\<close>

lemma ord_values:
  "ord CHR '' '' = 32" "ord CHR ''s'' = 115" "ord CHR ''S'' = 83"
  "ord CHR ''b'' = 98" "ord CHR ''B'' = 66" "ord CHR ''q'' = 113" "ord CHR ''Q'' = 81"
  by (simp_all add: ord_def)

lemma handle_key_NO_KEY: "handle_key NO_KEY s = Continue s"
  by (simp add: handle_key_def NO_KEY_def ord_values)

text \<open>With no key pressed the loop is the frame path alone.\<close>

lemma run_no_key: "run (map no_key_input fs) s = process_frames fs s"
  by (induction fs arbitrary: s)
     (auto simp add: loop_iteration_def no_key_input_def handle_key_NO_KEY split: prod.splits)

section \<open>What keeps the last confirmed label in place\<close>

lemma process_frame_blocked:
  assumes "last_prediction s = Some L" and "\<not> differing_label L f"
  shows "snd (process_frame f s) = None \<and> last_prediction (fst (process_frame f s)) = Some L"
  using assms by (cases f) (simp_all add: differing_label_def Let_def)

lemma process_frame_unconfirmed:
  assumes "snd (process_frame f s) = None"
  shows "last_prediction (fst (process_frame f s)) = last_prediction s"
  using assms by (cases f) (simp_all add: Let_def split: if_splits)

lemma handle_key_last_prediction:
  assumes "k \<noteq> ord CHR '' ''"
  shows "last_prediction (outcome_state (handle_key k s)) = last_prediction s"
  using assms by (simp add: handle_key_def)

lemma loop_iteration_unconfirmed:
  assumes "snd (loop_iteration i s) = None" and "key i \<noteq> ord CHR '' ''"
  shows "last_prediction (outcome_state (fst (loop_iteration i s))) = last_prediction s"
proof (cases "capture_ok i")
  case False
  then show ?thesis by (simp add: loop_iteration_def)
next
  case True
  obtain s1 ev where pf: "process_frame (frame i) s = (s1, ev)"
    by (cases "process_frame (frame i) s")
  have ev: "ev = None"
    using assms(1) True pf
    by (cases "handle_key (key i) s1") (simp_all add: loop_iteration_def)
  with process_frame_unconfirmed[of "frame i" s] pf
  have s1: "last_prediction s1 = last_prediction s" by simp
  from handle_key_last_prediction[OF assms(2), of s1] s1
  have "last_prediction (outcome_state (handle_key (key i) s1)) = last_prediction s" by simp
  with True pf show ?thesis
    by (cases "handle_key (key i) s1") (simp_all add: loop_iteration_def)
qed

lemma loop_iteration_blocked:
  assumes "last_prediction s = Some L" and "\<not> differing_label L (frame i)"
    and "key i \<noteq> ord CHR '' ''"
  shows "snd (loop_iteration i s) = None \<and>
         last_prediction (outcome_state (fst (loop_iteration i s))) = Some L"
proof (cases "capture_ok i")
  case False
  then show ?thesis using assms by (simp add: loop_iteration_def)
next
  case True
  obtain s1 ev where pf: "process_frame (frame i) s = (s1, ev)"
    by (cases "process_frame (frame i) s")
  with process_frame_blocked[OF assms(1,2)]
  have ev: "ev = None" and s1: "last_prediction s1 = Some L"
    by simp_all
  from handle_key_last_prediction[OF assms(3), of s1] s1
  have "last_prediction (outcome_state (handle_key (key i) s1)) = Some L" by simp
  with True pf ev show ?thesis
    by (cases "handle_key (key i) s1") (simp_all add: loop_iteration_def)
qed

lemma run_blocked:
  assumes "last_prediction s = Some L"
    and "list_all (\<lambda>i. \<not> differing_label L (frame i) \<and> key i \<noteq> ord CHR '' '') inputs"
  shows "confirmations (snd (run inputs s)) = [] \<and> last_prediction (fst (run inputs s)) = Some L"
  using assms
proof (induction inputs arbitrary: s)
  case Nil
  then show ?case by simp
next
  case (Cons i inputs)
  from Cons.prems have i: "\<not> differing_label L (frame i)" "key i \<noteq> ord CHR '' ''"
    and rest: "list_all (\<lambda>i. \<not> differing_label L (frame i) \<and> key i \<noteq> ord CHR '' '') inputs"
    by simp_all
  from loop_iteration_blocked[OF Cons.prems(1) i]
  have ev: "snd (loop_iteration i s) = None"
    and lp: "last_prediction (outcome_state (fst (loop_iteration i s))) = Some L"
    by simp_all
  show ?case
  proof (cases "fst (loop_iteration i s)")
    case (Break s1)
    with ev lp show ?thesis by (cases "loop_iteration i s") simp
  next
    case (Continue s1)
    with lp have "last_prediction s1 = Some L" by simp
    from Cons.IH[OF this rest] Continue ev show ?thesis
      by (cases "loop_iteration i s") (auto split: prod.splits)
  qed
qed

section \<open>Confirmation of a label\<close>

text \<open>
  Claim C1. From a state with an empty prediction history and a last confirmed label other
  than \<open>L\<close>, five consecutive frame results \<open>Detected L\<close> give exactly one confirmation
  event: the first four frames give none, the fifth confirms \<open>L\<close>. Afterwards
  \<^verbatim>\<open>last_prediction\<close> is \<open>L\<close> and the history is empty. The five frame results are
  consecutive inputs: no key command lies between them.
\<close>

theorem five_identical_frames_confirm_once:
  assumes "prediction_history s = []" and "last_prediction s \<noteq> Some L"
  shows "process_frames [Detected L, Detected L, Detected L, Detected L, Detected L] s =
           (s\<lparr>error_message := [], prediction_history := [], last_prediction := Some L\<rparr>,
            [None, None, None, None, Some L])"
  using assms by (auto simp add: deque_append_def Let_def)

text \<open>
  Witness for C1: the label \<open>''A''\<close> from the initial state, where nothing is confirmed yet.
\<close>

theorem five_identical_frames_confirm_once_witness:
  "prediction_history initial_state = [] \<and> last_prediction initial_state \<noteq> Some ''A'' \<and>
   process_frames [Detected ''A'', Detected ''A'', Detected ''A'', Detected ''A'', Detected ''A'']
     initial_state =
     (\<lparr>prediction_history = [], last_prediction = Some ''A'', sentence = [],
       error_message = []\<rparr>,
      [None, None, None, None, Some ''A''])"
  using five_identical_frames_confirm_once [of initial_state "''A''"]
  by (simp add: initial_state_def)

subsection \<open>Keys that leave the confirmation untouched\<close>

text \<open>
  The confirmation depends on the history and on the last confirmed label only. Keys other
  than space and the quit keys change neither, so a run of the loop in which every frame
  is read, the window stays open and no such key arrives confirms exactly what the frame
  path alone confirms on the same frame results.
\<close>

lemma process_frame_same_machine:
  assumes "prediction_history s = prediction_history t"
    and "last_prediction s = last_prediction t"
  shows "snd (process_frame f s) = snd (process_frame f t) \<and>
         prediction_history (fst (process_frame f s)) =
           prediction_history (fst (process_frame f t)) \<and>
         last_prediction (fst (process_frame f s)) = last_prediction (fst (process_frame f t))"
  using assms by (cases f) (simp_all add: Let_def)

lemma handle_key_other:
  assumes "k \<noteq> ord CHR '' ''" and "k \<noteq> ord CHR ''q''" and "k \<noteq> ord CHR ''Q''"
  shows "continues (handle_key k s) \<and>
         prediction_history (outcome_state (handle_key k s)) = prediction_history s \<and>
         last_prediction (outcome_state (handle_key k s)) = last_prediction s"
  using assms by (simp add: handle_key_def)

lemma run_same_machine:
  assumes "prediction_history s = prediction_history t"
    and "last_prediction s = last_prediction t"
    and "list_all (\<lambda>i. capture_ok i \<and> window_visible i \<and> key i \<noteq> ord CHR '' '' \<and>
                        key i \<noteq> ord CHR ''q'' \<and> key i \<noteq> ord CHR ''Q'') inputs"
  shows "snd (run inputs s) = snd (process_frames (map frame inputs) t) \<and>
         prediction_history (fst (run inputs s)) =
           prediction_history (fst (process_frames (map frame inputs) t)) \<and>
         last_prediction (fst (run inputs s)) =
           last_prediction (fst (process_frames (map frame inputs) t))"
  using assms
proof (induction inputs arbitrary: s t)
  case Nil
  then show ?case by simp
next
  case (Cons i inputs)
  obtain s1 ev where pf: "process_frame (frame i) s = (s1, ev)"
    by (cases "process_frame (frame i) s")
  obtain t1 ev' where pf': "process_frame (frame i) t = (t1, ev')"
    by (cases "process_frame (frame i) t")
  from process_frame_same_machine[OF Cons.prems(1,2), of "frame i"] pf pf'
  have ev: "ev' = ev" and h1: "prediction_history s1 = prediction_history t1"
    and l1: "last_prediction s1 = last_prediction t1"
    by simp_all
  from Cons.prems(3) have i: "capture_ok i" "window_visible i" "key i \<noteq> ord CHR '' ''"
      "key i \<noteq> ord CHR ''q''" "key i \<noteq> ord CHR ''Q''"
    and rest: "list_all (\<lambda>i. capture_ok i \<and> window_visible i \<and> key i \<noteq> ord CHR '' '' \<and>
                        key i \<noteq> ord CHR ''q'' \<and> key i \<noteq> ord CHR ''Q'') inputs"
    by simp_all
  from handle_key_other[OF i(3,4,5), of s1]
  obtain s2 where hk: "handle_key (key i) s1 = Continue s2"
    and h2: "prediction_history s2 = prediction_history s1"
    and l2: "last_prediction s2 = last_prediction s1"
    by (cases "handle_key (key i) s1") simp_all
  from i pf hk have step: "loop_iteration i s = (Continue s2, ev)"
    by (simp add: loop_iteration_def)
  from h1 h2 l1 l2 have "prediction_history s2 = prediction_history t1"
    and "last_prediction s2 = last_prediction t1" by simp_all
  from Cons.IH[OF this rest] step pf' ev show ?case
    by (auto split: prod.splits)
qed

lemma five_identical_iterations_confirm_once:
  assumes "prediction_history s = []" and "last_prediction s \<noteq> Some L"
    and "inputs = [i1, i2, i3, i4, i5]"
    and "list_all (\<lambda>i. frame i = Detected L) inputs"
    and "list_all (\<lambda>i. capture_ok i \<and> window_visible i \<and> key i \<noteq> ord CHR '' '' \<and>
                        key i \<noteq> ord CHR ''q'' \<and> key i \<noteq> ord CHR ''Q'') inputs"
  shows "snd (run inputs s) = [None, None, None, None, Some L] \<and>
         prediction_history (fst (run inputs s)) = [] \<and>
         last_prediction (fst (run inputs s)) = Some L"
proof -
  from assms(3,4)
  have frames: "map frame inputs = [Detected L, Detected L, Detected L, Detected L, Detected L]"
    by simp
  have "process_frames (map frame inputs) s =
          (s\<lparr>error_message := [], prediction_history := [], last_prediction := Some L\<rparr>,
           [None, None, None, None, Some L])"
    unfolding frames using assms(1,2) by (auto simp add: deque_append_def Let_def)
  with run_same_machine[OF refl refl assms(5), of s] show ?thesis by simp
qed

section \<open>Frames without a hand\<close>

text \<open>
  Claim C2, as stated: a \<open>NoDetection\<close> frame result clears the prediction history. It does
  not: with the history \<open>[''A'']\<close> the history after the frame is still \<open>[''A'']\<close>.
\<close>

theorem no_detection_clears_history_counterexample:
  "prediction_history (fst (process_frame NoDetection
      \<lparr>prediction_history = [''A''], last_prediction = None, sentence = [],
       error_message = []\<rparr>)) = [''A''] \<and>
   prediction_history (fst (process_frame NoDetection
      \<lparr>prediction_history = [''A''], last_prediction = None, sentence = [],
       error_message = []\<rparr>)) \<noteq> []"
  by simp

text \<open>
  Claim C2, amended: a \<open>NoDetection\<close> frame result leaves the whole state as it is
  (history, last confirmed label, sentence and error message) and confirms nothing. An
  iteration with such a frame does what its key does and nothing else; with no key pressed
  it leaves the state unchanged and the loop running.
\<close>

theorem no_detection_leaves_state:
  "process_frame NoDetection s = (s, None) \<and>
   prediction_history (fst (process_frame NoDetection s)) = prediction_history s \<and>
   loop_iteration (key_input NoDetection k) s = (handle_key k s, None) \<and>
   loop_iteration (no_key_input NoDetection) s = (Continue s, None)"
  by (cases "handle_key k s")
     (simp_all add: loop_iteration_def key_input_def no_key_input_def handle_key_NO_KEY)

section \<open>Confirming the same label again\<close>

text \<open>
  Claim C3, as stated: after \<open>L\<close> is confirmed, one unconfirmed frame with another label
  and then five frames \<open>Detected L\<close> confirm \<open>L\<close> a second time. They do not: from the
  initial state, five frames \<open>''A''\<close>, one frame \<open>''B''\<close> and five frames \<open>''A''\<close> with no
  key pressed confirm \<open>''A''\<close> once, at the fifth frame, and nothing afterwards.
\<close>

theorem different_label_reenables_counterexample:
  "snd (run (map no_key_input
        [Detected ''A'', Detected ''A'', Detected ''A'', Detected ''A'', Detected ''A'',
         Detected ''B'',
         Detected ''A'', Detected ''A'', Detected ''A'', Detected ''A'', Detected ''A''])
      initial_state) =
   [None, None, None, None, Some ''A'', None, None, None, None, None, None]"
  unfolding run_no_key by (simp add: initial_state_def deque_append_def Let_def)

text \<open>
  Claim C3, amended: when \<open>L\<close> is the last confirmed label, an iteration whose frame is
  \<open>Detected L'\<close> with \<open>L' \<noteq> L\<close>, which confirms nothing and has no AcceptSymbol key, followed
  by iterations whose frames are all \<open>Detected L\<close> and which have no AcceptSymbol key (five
  of them in particular), gives no confirmation event at all, and \<open>L\<close> is still the last
  confirmed label: one unconfirmed different label does not enable \<open>L\<close> again.
\<close>

theorem unconfirmed_different_label_keeps_block:
  assumes "last_prediction s = Some L" and "L' \<noteq> L"
    and "frame i0 = Detected L'" and "key i0 \<noteq> ord CHR '' ''"
    and "snd (loop_iteration i0 s) = None"
    and "list_all (\<lambda>i. frame i = Detected L \<and> key i \<noteq> ord CHR '' '') inputs"
  shows "confirmations (snd (run (i0 # inputs) s)) = [] \<and>
         last_prediction (fst (run (i0 # inputs) s)) = Some L"
proof -
  from loop_iteration_unconfirmed[OF assms(5,4)] assms(1)
  have lp: "last_prediction (outcome_state (fst (loop_iteration i0 s))) = Some L" by simp
  from assms(6)
  have rest: "list_all (\<lambda>i. \<not> differing_label L (frame i) \<and> key i \<noteq> ord CHR '' '') inputs"
    by (induction inputs) (simp_all add: differing_label_def)
  show ?thesis
  proof (cases "fst (loop_iteration i0 s)")
    case (Break s1)
    with lp assms(5) show ?thesis by (cases "loop_iteration i0 s") simp
  next
    case (Continue s1)
    with lp have "last_prediction s1 = Some L" by simp
    from run_blocked[OF this rest] Continue assms(5) show ?thesis
      by (cases "loop_iteration i0 s") (auto split: prod.splits)
  qed
qed

text \<open>
  Witness for the amended C3: \<open>''A''\<close> is confirmed, then one frame \<open>''B''\<close> and five frames
  \<open>''A''\<close> arrive with no key pressed.
\<close>

theorem unconfirmed_different_label_keeps_block_witness:
  "last_prediction (initial_state\<lparr>last_prediction := Some ''A''\<rparr>) = Some ''A'' \<and>
   ''B'' \<noteq> ''A'' \<and>
   frame (no_key_input (Detected ''B'')) = Detected ''B'' \<and>
   key (no_key_input (Detected ''B'')) \<noteq> ord CHR '' '' \<and>
   snd (loop_iteration (no_key_input (Detected ''B''))
          (initial_state\<lparr>last_prediction := Some ''A''\<rparr>)) = None \<and>
   list_all (\<lambda>i. frame i = Detected ''A'' \<and> key i \<noteq> ord CHR '' '')
     (map no_key_input
        [Detected ''A'', Detected ''A'', Detected ''A'', Detected ''A'', Detected ''A'']) \<and>
   confirmations (snd (run (no_key_input (Detected ''B'') # map no_key_input
        [Detected ''A'', Detected ''A'', Detected ''A'', Detected ''A'', Detected ''A''])
      (initial_state\<lparr>last_prediction := Some ''A''\<rparr>))) = [] \<and>
   last_prediction (fst (run (no_key_input (Detected ''B'') # map no_key_input
        [Detected ''A'', Detected ''A'', Detected ''A'', Detected ''A'', Detected ''A''])
      (initial_state\<lparr>last_prediction := Some ''A''\<rparr>))) = Some ''A''"
  using unconfirmed_different_label_keeps_block
    [of "initial_state\<lparr>last_prediction := Some ''A''\<rparr>" "''A''" "''B''"
        "no_key_input (Detected ''B'')"
        "map no_key_input
           [Detected ''A'', Detected ''A'', Detected ''A'', Detected ''A'', Detected ''A'']"]
  by (simp add: initial_state_def no_key_input_def NO_KEY_def ord_values loop_iteration_def
        handle_key_def deque_append_def Let_def)

text \<open>
  Claim C4. When \<open>L\<close> is the last confirmed label, a run of the loop over iterations none
  of which has a frame with a label other than \<open>L\<close> or the AcceptSymbol key (space) gives
  no confirmation event at all, hence none for \<open>L\<close>, however many frames \<open>Detected L\<close> it
  contains.
\<close>

theorem no_reconfirmation_while_blocked:
  assumes "last_prediction s = Some L"
    and "list_all (\<lambda>i. \<not> differing_label L (frame i) \<and> key i \<noteq> ord CHR '' '') inputs"
  shows "confirmations (snd (run inputs s)) = []"
  using run_blocked[OF assms] by simp

text \<open>
  Witness for C4: \<open>''A''\<close> is confirmed and another unanimous run of five frames \<open>''A''\<close>
  arrives with no key pressed.
\<close>

theorem no_reconfirmation_while_blocked_witness:
  "last_prediction (initial_state\<lparr>last_prediction := Some ''A''\<rparr>) = Some ''A'' \<and>
   list_all (\<lambda>i. \<not> differing_label ''A'' (frame i) \<and> key i \<noteq> ord CHR '' '')
     (map no_key_input
        [Detected ''A'', Detected ''A'', Detected ''A'', Detected ''A'', Detected ''A'']) \<and>
   confirmations (snd (run (map no_key_input
        [Detected ''A'', Detected ''A'', Detected ''A'', Detected ''A'', Detected ''A''])
      (initial_state\<lparr>last_prediction := Some ''A''\<rparr>))) = []"
  using no_reconfirmation_while_blocked
    [of "initial_state\<lparr>last_prediction := Some ''A''\<rparr>" "''A''"
        "map no_key_input
           [Detected ''A'', Detected ''A'', Detected ''A'', Detected ''A'', Detected ''A'']"]
  by (simp add: initial_state_def no_key_input_def NO_KEY_def ord_values differing_label_def)

section \<open>The length of the sentence\<close>

text \<open>
  The frame path never touches the sentence, and the key commands keep it within
  \<open>MAX_SENTENCE_LENGTH\<close> as long as the label accepted has at most one character.
\<close>

lemma process_frame_sentence: "sentence (fst (process_frame f s)) = sentence s"
  by (cases f) (simp_all add: Let_def)

lemma handle_key_sentence_bound:
  assumes "length (sentence s) \<le> MAX_SENTENCE_LENGTH"
    and "case last_prediction s of None \<Rightarrow> True | Some l \<Rightarrow> length l \<le> 1"
  shows "length (sentence (outcome_state (handle_key k s))) \<le> MAX_SENTENCE_LENGTH"
  using assms by (auto simp add: handle_key_def split: option.splits)

text \<open>
  Claim C5: the sentence never has more than 30 characters. The AcceptSymbol branch tests
  \<^verbatim>\<open>len(sentence) < MAX_SENTENCE_LENGTH\<close> and then appends the whole label, so a label of
  two characters takes a sentence of 29 characters to 31. The run below reaches that from
  the initial state: 29 iterations with the key \<open>s\<close>, four frames \<open>Detected ''AB''\<close>, and
  a fifth one in whose iteration the space key is pressed.
\<close>

theorem sentence_limit_exceeded_by_long_label:
  "length (sentence (fst (run
      (replicate 29 (key_input NoDetection (ord CHR ''s''))
       @ replicate 4 (no_key_input (Detected ''AB''))
       @ [key_input (Detected ''AB'') (ord CHR '' '')])
      initial_state))) = 31
   \<and> MAX_SENTENCE_LENGTH < 31"
  by code_simp

section \<open>The key commands\<close>

text \<open>
  Claim C6, as stated: whenever \<^verbatim>\<open>last_prediction\<close> holds a label and the sentence is
  shorter than 30, AcceptSymbol clears \<^verbatim>\<open>last_prediction\<close>. With the empty string as label
  it does not: five frames \<open>Detected ''''\<close> from the initial state confirm the empty label,
  and the space key then leaves the state as it is, \<^verbatim>\<open>last_prediction\<close> included, because
  \<^verbatim>\<open>if last_prediction:\<close> fails for the empty string.
\<close>

theorem accept_symbol_clears_last_counterexample:
  "fst (process_frames [Detected [], Detected [], Detected [], Detected [], Detected []]
          initial_state) =
     \<lparr>prediction_history = [], last_prediction = Some [], sentence = [],
      error_message = []\<rparr> \<and>
   length (sentence \<lparr>prediction_history = [], last_prediction = Some [], sentence = [],
      error_message = []\<rparr>) < 30 \<and>
   handle_key (ord CHR '' '')
     \<lparr>prediction_history = [], last_prediction = Some [], sentence = [],
      error_message = []\<rparr> =
     Continue \<lparr>prediction_history = [], last_prediction = Some [], sentence = [],
      error_message = []\<rparr> \<and>
   last_prediction (outcome_state (handle_key (ord CHR '' '')
     \<lparr>prediction_history = [], last_prediction = Some [], sentence = [],
      error_message = []\<rparr>)) \<noteq> None"
  by (simp add: initial_state_def deque_append_def Let_def handle_key_def
        MAX_SENTENCE_LENGTH_def)

text \<open>
  Claim C6, amended: when \<^verbatim>\<open>last_prediction\<close> holds a non-empty label \<open>L\<close> and the
  sentence is shorter than 30, the AcceptSymbol command (space key) appends \<open>L\<close> to the
  sentence, sets \<^verbatim>\<open>last_prediction\<close> to \<^verbatim>\<open>None\<close>, empties the history and leaves the error
  message as it is; the loop goes on. In particular, after \<open>''A''\<close> is confirmed by five
  frames from the initial state, AcceptSymbol gives the sentence \<open>''A''\<close> with nothing
  confirmed.
\<close>

theorem accept_symbol_appends_label:
  assumes "last_prediction s = Some L" and "L \<noteq> []" and "length (sentence s) < 30"
  shows "handle_key (ord CHR '' '') s =
           Continue (s\<lparr>sentence := sentence s @ L, last_prediction := None,
                      prediction_history := []\<rparr>) \<and>
         error_message (outcome_state (handle_key (ord CHR '' '') s)) = error_message s \<and>
         handle_key (ord CHR '' '')
           (fst (process_frames
              [Detected ''A'', Detected ''A'', Detected ''A'', Detected ''A'', Detected ''A'']
              initial_state)) =
           Continue \<lparr>prediction_history = [], last_prediction = None, sentence = ''A'',
                     error_message = []\<rparr>"
  using assms
  by (simp add: handle_key_def MAX_SENTENCE_LENGTH_def initial_state_def deque_append_def
        Let_def)

text \<open>
  Witness for the amended C6: the label \<open>''B''\<close> is confirmed, the sentence is \<open>''A''\<close> and an error
  message is on display.
\<close>

theorem accept_symbol_appends_label_witness:
  "last_prediction \<lparr>prediction_history = [''C''], last_prediction = Some ''B'',
      sentence = ''A'', error_message = ''Error''\<rparr> = Some ''B'' \<and>
   ''B'' \<noteq> [] \<and>
   length (sentence \<lparr>prediction_history = [''C''], last_prediction = Some ''B'',
      sentence = ''A'', error_message = ''Error''\<rparr>) < 30 \<and>
   handle_key (ord CHR '' '')
     \<lparr>prediction_history = [''C''], last_prediction = Some ''B'', sentence = ''A'',
      error_message = ''Error''\<rparr> =
     Continue \<lparr>prediction_history = [], last_prediction = None, sentence = ''AB'',
      error_message = ''Error''\<rparr>"
  using accept_symbol_appends_label
    [of "\<lparr>prediction_history = [''C''], last_prediction = Some ''B'', sentence = ''A'',
          error_message = ''Error''\<rparr>" "''B''"]
  by simp

text \<open>
  Claim C7. When the sentence has exactly 30 characters, the AcceptSymbol key (space) and
  the AppendSpace keys (\<open>s\<close>, \<open>S\<close>) change nothing but the error message, which becomes
  the non-empty text \<open>''Error: Sentence length limit reached''\<close>; the sentence stays as it
  is.
\<close>

theorem full_sentence_rejects_append:
  assumes "length (sentence s) = 30"
    and "k = ord CHR '' '' \<or> k = ord CHR ''s'' \<or> k = ord CHR ''S''"
  shows "handle_key k s =
           Continue (s\<lparr>error_message := ''Error: Sentence length limit reached''\<rparr>) \<and>
         sentence (outcome_state (handle_key k s)) = sentence s \<and>
         error_message (outcome_state (handle_key k s)) \<noteq> []"
  using assms by (auto simp add: handle_key_def MAX_SENTENCE_LENGTH_def ord_values)

text \<open>
  Witness for C7: a sentence of thirty characters, a confirmed label waiting and no error
  on display; the space key and the key \<open>s\<close> both leave the sentence and set the error.
\<close>

theorem full_sentence_rejects_append_witness:
  "length (sentence \<lparr>prediction_history = [], last_prediction = Some ''A'',
      sentence = replicate 30 CHR ''A'', error_message = []\<rparr>) = 30 \<and>
   handle_key (ord CHR '' '')
     \<lparr>prediction_history = [], last_prediction = Some ''A'',
      sentence = replicate 30 CHR ''A'', error_message = []\<rparr> =
     Continue \<lparr>prediction_history = [], last_prediction = Some ''A'',
      sentence = replicate 30 CHR ''A'',
      error_message = ''Error: Sentence length limit reached''\<rparr> \<and>
   handle_key (ord CHR ''s'')
     \<lparr>prediction_history = [], last_prediction = Some ''A'',
      sentence = replicate 30 CHR ''A'', error_message = []\<rparr> =
     Continue \<lparr>prediction_history = [], last_prediction = Some ''A'',
      sentence = replicate 30 CHR ''A'',
      error_message = ''Error: Sentence length limit reached''\<rparr>"
  using full_sentence_rejects_append
    [of "\<lparr>prediction_history = [], last_prediction = Some ''A'',
          sentence = replicate 30 CHR ''A'', error_message = []\<rparr>" "ord CHR '' ''"]
    full_sentence_rejects_append
    [of "\<lparr>prediction_history = [], last_prediction = Some ''A'',
          sentence = replicate 30 CHR ''A'', error_message = []\<rparr>" "ord CHR ''s''"]
  by simp

text \<open>
  Claim C8. Whatever the prediction history holds, a \<open>FeatureMismatch\<close> frame result
  empties it and sets the non-empty error message
  \<open>''Error: Feature count mismatch or Multiple hands detected''\<close>; it confirms nothing. The
  frame path has no exit of its own: an iteration with this frame result leaves the loop
  running, with an empty history, unless the quit key (\<open>q\<close>, \<open>Q\<close>) is pressed or the
  window is closed in the same iteration.
\<close>

theorem feature_mismatch_clears_history:
  "process_frame FeatureMismatch s =
     (s\<lparr>error_message := ''Error: Feature count mismatch or Multiple hands detected'',
        prediction_history := []\<rparr>, None) \<and>
   prediction_history (fst (process_frame FeatureMismatch s)) = [] \<and>
   error_message (fst (process_frame FeatureMismatch s)) \<noteq> [] \<and>
   (capture_ok i \<and> frame i = FeatureMismatch \<and> key i \<noteq> ord CHR ''q'' \<and>
    key i \<noteq> ord CHR ''Q'' \<and> window_visible i \<longrightarrow>
      continues (fst (loop_iteration i s)) \<and>
      prediction_history (outcome_state (fst (loop_iteration i s))) = [])"
  by (auto simp add: loop_iteration_def handle_key_def split: option.splits)

text \<open>
  Witness for C8: a history of four labels \<open>''A''\<close>, a \<open>FeatureMismatch\<close> frame and no key
  pressed.
\<close>

theorem feature_mismatch_clears_history_witness:
  "capture_ok (no_key_input FeatureMismatch) \<and>
   frame (no_key_input FeatureMismatch) = FeatureMismatch \<and>
   key (no_key_input FeatureMismatch) \<noteq> ord CHR ''q'' \<and>
   key (no_key_input FeatureMismatch) \<noteq> ord CHR ''Q'' \<and>
   window_visible (no_key_input FeatureMismatch) \<and>
   continues (fst (loop_iteration (no_key_input FeatureMismatch)
      \<lparr>prediction_history = [''A'', ''A'', ''A'', ''A''], last_prediction = None,
       sentence = [], error_message = []\<rparr>)) \<and>
   prediction_history (outcome_state (fst (loop_iteration (no_key_input FeatureMismatch)
      \<lparr>prediction_history = [''A'', ''A'', ''A'', ''A''], last_prediction = None,
       sentence = [], error_message = []\<rparr>))) = [] \<and>
   error_message (fst (process_frame FeatureMismatch
      \<lparr>prediction_history = [''A'', ''A'', ''A'', ''A''], last_prediction = None,
       sentence = [], error_message = []\<rparr>)) =
     ''Error: Feature count mismatch or Multiple hands detected''"
  using feature_mismatch_clears_history
    [of "\<lparr>prediction_history = [''A'', ''A'', ''A'', ''A''], last_prediction = None,
          sentence = [], error_message = []\<rparr>" "no_key_input FeatureMismatch"]
  by (simp add: no_key_input_def NO_KEY_def ord_values)

text \<open>
  Claim C9. The DeleteLast keys (\<open>b\<close>, \<open>B\<close>) replace the sentence by
  \<^verbatim>\<open>sentence[:-1]\<close> and empty the error message, touching nothing else: a sentence
  \<open>cs @ [c]\<close> becomes \<open>cs\<close>, the empty sentence stays empty, and in both cases the error
  message is empty afterwards.
\<close>

theorem delete_last_removes_last_character:
  assumes "k = ord CHR ''b'' \<or> k = ord CHR ''B''"
  shows "handle_key k s =
           Continue (s\<lparr>sentence := butlast (sentence s), error_message := []\<rparr>) \<and>
         (sentence s = cs @ [c] \<longrightarrow> sentence (outcome_state (handle_key k s)) = cs) \<and>
         (sentence s = [] \<longrightarrow> sentence (outcome_state (handle_key k s)) = []) \<and>
         error_message (outcome_state (handle_key k s)) = []"
  using assms by (auto simp add: handle_key_def ord_values)

text \<open>
  Witness for C9: the key \<open>b\<close> on the sentence \<open>''HI''\<close> with an error on display, and the
  key \<open>B\<close> on the empty sentence.
\<close>

theorem delete_last_removes_last_character_witness:
  "sentence \<lparr>prediction_history = [], last_prediction = None, sentence = ''HI'',
      error_message = ''Error''\<rparr> = ''H'' @ [CHR ''I''] \<and>
   handle_key (ord CHR ''b'')
     \<lparr>prediction_history = [], last_prediction = None, sentence = ''HI'',
      error_message = ''Error''\<rparr> =
     Continue \<lparr>prediction_history = [], last_prediction = None, sentence = ''H'',
      error_message = []\<rparr> \<and>
   sentence \<lparr>prediction_history = [], last_prediction = None, sentence = [],
      error_message = ''Error''\<rparr> = [] \<and>
   handle_key (ord CHR ''B'')
     \<lparr>prediction_history = [], last_prediction = None, sentence = [],
      error_message = ''Error''\<rparr> =
     Continue \<lparr>prediction_history = [], last_prediction = None, sentence = [],
      error_message = []\<rparr>"
  using delete_last_removes_last_character
    [of "ord CHR ''b''" "\<lparr>prediction_history = [], last_prediction = None,
          sentence = ''HI'', error_message = ''Error''\<rparr>" "''H''" "CHR ''I''"]
    delete_last_removes_last_character
    [of "ord CHR ''B''" "\<lparr>prediction_history = [], last_prediction = None,
          sentence = [], error_message = ''Error''\<rparr>" "[]" "CHR ''I''"]
  by simp

text \<open>
  Claim C10. When \<^verbatim>\<open>last_prediction\<close> holds a non-empty label \<open>L\<close> and the sentence is
  shorter than 30, one AcceptSymbol command appends all of \<open>L\<close>: the sentence grows by
  \<open>length L\<close> characters, which is more than one for a label of several characters.
\<close>

theorem accept_symbol_grows_by_label_length:
  assumes "last_prediction s = Some L" and "L \<noteq> []" and "length (sentence s) < 30"
  shows "sentence (outcome_state (handle_key (ord CHR '' '') s)) = sentence s @ L \<and>
         length (sentence (outcome_state (handle_key (ord CHR '' '') s))) =
           length (sentence s) + length L"
  using assms by (simp add: handle_key_def MAX_SENTENCE_LENGTH_def)

text \<open>
  Witness for C10: the label \<open>''AB''\<close> accepted into the sentence \<open>''H''\<close> makes it
  \<open>''HAB''\<close>, two characters longer.
\<close>

theorem accept_symbol_grows_by_label_length_witness:
  "last_prediction \<lparr>prediction_history = [], last_prediction = Some ''AB'',
      sentence = ''H'', error_message = []\<rparr> = Some ''AB'' \<and>
   ''AB'' \<noteq> [] \<and>
   length (sentence \<lparr>prediction_history = [], last_prediction = Some ''AB'',
      sentence = ''H'', error_message = []\<rparr>) < 30 \<and>
   sentence (outcome_state (handle_key (ord CHR '' '')
     \<lparr>prediction_history = [], last_prediction = Some ''AB'', sentence = ''H'',
      error_message = []\<rparr>)) = ''HAB'' \<and>
   length (sentence (outcome_state (handle_key (ord CHR '' '')
     \<lparr>prediction_history = [], last_prediction = Some ''AB'', sentence = ''H'',
      error_message = []\<rparr>))) = 1 + 2"
  using accept_symbol_grows_by_label_length
    [of "\<lparr>prediction_history = [], last_prediction = Some ''AB'', sentence = ''H'',
          error_message = []\<rparr>" "''AB''"]
  by simp

end
